theory Spec2Isabelle
  imports Main "HOL-Library.Sublist"
begin

section \<open>Values, errors and protocol tokens\<close>

text \<open>
  A shallow embedding of the client facade of emcache (\<^verbatim>\<open>src/emcache/client.py\<close>):
  the class \<^verbatim>\<open>_Client\<close>, the builder \<^verbatim>\<open>_Pipeline\<close> and the dataclass \<^verbatim>\<open>Item\<close> of
  \<^verbatim>\<open>src/emcache/base.py\<close>. Python \<^verbatim>\<open>bytes\<close> and \<^verbatim>\<open>str\<close> are byte strings, Python
  integers are unbounded.
\<close>

type_synonym bytes = string

datatype address = MemcachedHostAddress string nat | MemcachedUnixSocketPath string

text \<open>The dataclass \<^verbatim>\<open>Item(value, flags, cas)\<close>.\<close>

datatype Item = Item (item_value: bytes) (item_flags: "int option") (item_cas: "int option")

text \<open>
  Exceptions are values. \<^verbatim>\<open>StorageCommandError\<close> and \<^verbatim>\<open>CommandError\<close> carry the reply
  that the source formats into their message; \<^verbatim>\<open>OtherError\<close> stands for whatever a
  collaborator outside the facade raises (a connection failure, say).
\<close>

datatype exn =
    RuntimeError string
  | ValueError string
  | TypeError
  | IndexError
  | UnicodeDecodeError
  | TimeoutError
  | CommandError "bytes option"
  | NotFoundCommandError
  | StorageCommandError "bytes option"
  | NotStoredStorageCommandError
  | AttributeError
  | CancelledError
  | InvalidStateError
  | OtherError string

text \<open>
  The handler \<^verbatim>\<open>except Exception\<close> catches every exception above but
  \<^verbatim>\<open>asyncio.CancelledError\<close>, which derives from \<^verbatim>\<open>BaseException\<close> only;
  \<^verbatim>\<open>OtherError\<close> stands for exceptions of class \<^verbatim>\<open>Exception\<close>.
\<close>

definition is_Exception :: "exn \<Rightarrow> bool" where
  "is_Exception e = (case e of CancelledError \<Rightarrow> False | _ \<Rightarrow> True)"

text \<open>
  Modelled from the spec: the tokens imported from \<^verbatim>\<open>emcache/protocol.py\<close>, which is
  not among the sources. They are the reply tokens of the text protocol that the
  specification lists and that their names spell: the status lines, the first word of
  the version line, and the line that ends a block.
\<close>

definition STORED :: bytes where "STORED = ''STORED''"
definition NOT_STORED :: bytes where "NOT_STORED = ''NOT_STORED''"
definition EXISTS :: bytes where "EXISTS = ''EXISTS''"
definition NOT_FOUND :: bytes where "NOT_FOUND = ''NOT_FOUND''"
definition DELETED :: bytes where "DELETED = ''DELETED''"
definition TOUCHED :: bytes where "TOUCHED = ''TOUCHED''"
definition VERSION :: bytes where "VERSION = ''VERSION''"

definition MAX_ALLOWED_FLAG_VALUE :: int where "MAX_ALLOWED_FLAG_VALUE = 2 ^ 16"
definition MAX_ALLOWED_CAS_VALUE :: int where "MAX_ALLOWED_CAS_VALUE = 2 ^ 64"

definition client_closed_error :: exn where
  "client_closed_error = RuntimeError ''Emcache client is closed''"

definition flags_error :: exn where
  \<comment> \<open>the f-string of both guards: the constant is \<^verbatim>\<open>MAX_ALLOWED_FLAG_VALUE\<close>\<close>
  "flags_error = ValueError ''flags can not be higher than 65536''"

definition key_error :: exn where
  "key_error = ValueError ''Key has invalid charcters''"

definition delta_error :: exn where
  "delta_error = ValueError ''Incr or Decr by a positive value number expected''"

subsection \<open>Key validation\<close>

text \<open>
  Modelled from the spec: \<^verbatim>\<open>cyemcache.is_key_valid\<close> is a compiled extension that is
  not among the sources. The specification's rule is: a key containing any byte in
  \<open>{space, tab, CR, LF}\<close> or any byte below \<open>0x21\<close>, or of length 0 or greater than 250,
  is invalid. A byte that the rule forbids:
\<close>

definition forbidden_byte :: "char \<Rightarrow> bool" where
  "forbidden_byte c \<longleftrightarrow>
     c \<in> {CHR 0x20, CHR 0x09, CHR 0x0D, CHR 0x0A} \<or> (of_char c :: nat) < 0x21"

text \<open>
  Modelled from the spec: \<^verbatim>\<open>cyemcache.is_key_valid(key)\<close>, false exactly for the keys
  that the rule above makes invalid.
\<close>

definition is_key_valid :: "bytes \<Rightarrow> bool" where
  "is_key_valid key \<longleftrightarrow>
     \<not> (list_ex forbidden_byte key \<or> length key = 0 \<or> length key > 250)"

section \<open>The collaborators of the facade\<close>

text \<open>
  A node is identified by its address. A \<open>request\<close> is one call of a method of a leased
  connection, with the arguments the facade passes.
\<close>

type_synonym node = address

datatype request =
    Storage_command bytes bytes bytes int int bool "int option"
  | Incr_decr_command bytes bytes int bool
  | Fetch_command bytes "bytes list"
  | Get_and_touch_command bytes int "bytes list"
  | Touch_command bytes int bool
  | Delete_command bytes bool
  | Flush_all_command int bool
  | Version_command
  | Cache_memlimit_command int bool
  | Stats_command "string list"
  | Verbosity_command int bool
  | Extract_pipeline_data bytes

text \<open>
  What the facade does to the outside, in order: a routing decision of the cluster
  (\<^verbatim>\<open>pick_node\<close>, \<^verbatim>\<open>pick_nodes\<close>, \<^verbatim>\<open>node\<close>), a request handed to a connection leased from
  a node, a task created for a request, the close of the cluster.
\<close>

datatype event =
    Pick_node bytes
  | Pick_nodes "bytes list"
  | Cluster_node address
  | Connection node request
  | Create_task node request
  | Cluster_close

text \<open>
  The five values a retrieval on a connection returns:
  \<^verbatim>\<open>keys, values, flags, cas, client_error\<close>.
\<close>

type_synonym fetched = "bytes list \<times> bytes list \<times> int list \<times> int list \<times> bytes option"

text \<open>
  The result of \<^verbatim>\<open>Match.groupdict()\<close>: the text of every named group, \<open>None\<close> for a
  group that took no part in the match.
\<close>

type_synonym groupdict = "string \<Rightarrow> string option"

text \<open>
  Everything outside \<^verbatim>\<open>client.py\<close> that the facade calls is a parameter of the model:
  the routing of the cluster, the reply of a connection to a request (\<open>Inl\<close> when the
  lease, the round trip or the \<^verbatim>\<open>OpTimeout\<close> around them raises), the order in which
  the event loop completes the tasks of a fan-out, and the library calls
  \<^verbatim>\<open>bytes.decode\<close>, \<^verbatim>\<open>regex_memcached_responses.finditer\<close> (the pattern is a constant of
  \<^verbatim>\<open>emcache/constants.py\<close>, not among the sources) and
  \<^verbatim>\<open>re.finditer(r"STAT (.+) (.+)\r\n", _)\<close> with the groups of every match.
\<close>

record world =
  pick_node :: "bytes \<Rightarrow> node"
  pick_nodes :: "bytes list \<Rightarrow> (node \<times> bytes list) list"
  cluster_node :: "address \<Rightarrow> exn + node"
  connection_line :: "node \<Rightarrow> request \<Rightarrow> exn + bytes option"
  connection_fetch :: "node \<Rightarrow> request \<Rightarrow> exn + fetched"
  completion_order :: "nat list"
  decode :: "bytes \<Rightarrow> exn + string"
  regex_memcached_responses :: "string \<Rightarrow> groupdict list"
  stat_groups :: "string \<Rightarrow> (string \<times> string) list"

text \<open>
  The state of a \<^verbatim>\<open>_Client\<close> that the facade reads: \<^verbatim>\<open>_closed\<close>, \<^verbatim>\<open>_autobatching\<close> and
  \<^verbatim>\<open>_timeout\<close> (of which only being \<^verbatim>\<open>None\<close> or not is observed here).
\<close>

record client =
  closed :: bool
  autobatching :: bool
  timeout :: "nat option"

text \<open>
  A call returns the events it caused and either the exception it raised or its value.
\<close>

type_synonym 'a outcome = "event list \<times> (exn + 'a)"

definition raise :: "exn \<Rightarrow> 'a outcome" where
  "raise e = ([], Inl e)"

text \<open>The code after an \<^verbatim>\<open>await\<close>: it runs on the value, an exception passes through.\<close>

definition and_then :: "'a outcome \<Rightarrow> ('a \<Rightarrow> exn + 'b) \<Rightarrow> 'b outcome" where
  "and_then m f = (case m of (tr, Inl e) \<Rightarrow> (tr, Inl e) | (tr, Inr x) \<Rightarrow> (tr, f x))"

text \<open>
  \<^verbatim>\<open>node = self._cluster.pick_node(key)\<close>, then the request on a connection of the node
  under the operation timeout.
\<close>

definition on_picked_node :: "world \<Rightarrow> bytes \<Rightarrow> request \<Rightarrow> bytes option outcome" where
  "on_picked_node w key req =
     (let node = pick_node w key
      in ([Pick_node key, Connection node req], connection_line w node req))"

definition fetch_on_picked_node :: "world \<Rightarrow> bytes \<Rightarrow> request \<Rightarrow> fetched outcome" where
  "fetch_on_picked_node w key req =
     (let node = pick_node w key
      in ([Pick_node key, Connection node req], connection_fetch w node req))"

text \<open>\<^verbatim>\<open>node = self._cluster.node(memcached_host_address)\<close>, then the request.\<close>

definition on_cluster_node :: "world \<Rightarrow> address \<Rightarrow> request \<Rightarrow> bytes option outcome" where
  "on_cluster_node w a req =
     (case cluster_node w a of
        Inl e \<Rightarrow> ([Cluster_node a], Inl e)
      | Inr node \<Rightarrow> ([Cluster_node a, Connection node req], connection_line w node req))"

section \<open>The client: storage commands\<close>

definition Client_storage_command ::
  "world \<Rightarrow> client \<Rightarrow> bytes \<Rightarrow> bytes \<Rightarrow> bytes \<Rightarrow> int \<Rightarrow> int \<Rightarrow> bool \<Rightarrow> int option
     \<Rightarrow> bytes option outcome" where
  "Client_storage_command w c command key val flags exptime noreply cas =
     (if closed c then raise client_closed_error
      else if (case cas of None \<Rightarrow> False | Some n \<Rightarrow> n > MAX_ALLOWED_CAS_VALUE)
        then raise flags_error
      else if flags > MAX_ALLOWED_FLAG_VALUE then raise flags_error
      else if \<not> is_key_valid key then raise key_error
      else on_picked_node w key (Storage_command command key val flags exptime noreply cas))"

definition Client_set ::
  "world \<Rightarrow> client \<Rightarrow> bytes \<Rightarrow> bytes \<Rightarrow> int \<Rightarrow> int \<Rightarrow> bool \<Rightarrow> unit outcome" where
  "Client_set w c key val flags exptime noreply =
     and_then (Client_storage_command w c ''set'' key val flags exptime noreply None)
       (\<lambda>result.
          if \<not> noreply \<and> result \<noteq> Some STORED then Inl (StorageCommandError result)
          else Inr ())"

definition Client_add ::
  "world \<Rightarrow> client \<Rightarrow> bytes \<Rightarrow> bytes \<Rightarrow> int \<Rightarrow> int \<Rightarrow> bool \<Rightarrow> unit outcome" where
  "Client_add w c key val flags exptime noreply =
     and_then (Client_storage_command w c ''add'' key val flags exptime noreply None)
       (\<lambda>result.
          if \<not> noreply \<and> result = Some NOT_STORED then Inl NotStoredStorageCommandError
          else if \<not> noreply \<and> result \<noteq> Some STORED then Inl (StorageCommandError result)
          else Inr ())"

definition Client_replace ::
  "world \<Rightarrow> client \<Rightarrow> bytes \<Rightarrow> bytes \<Rightarrow> int \<Rightarrow> int \<Rightarrow> bool \<Rightarrow> unit outcome" where
  "Client_replace w c key val flags exptime noreply =
     and_then (Client_storage_command w c ''replace'' key val flags exptime noreply None)
       (\<lambda>result.
          if \<not> noreply \<and> result = Some NOT_STORED then Inl NotStoredStorageCommandError
          else if \<not> noreply \<and> result \<noteq> Some STORED then Inl (StorageCommandError result)
          else Inr ())"

definition Client_append :: "world \<Rightarrow> client \<Rightarrow> bytes \<Rightarrow> bytes \<Rightarrow> bool \<Rightarrow> unit outcome" where
  "Client_append w c key val noreply =
     (let flags = 0; exptime = 0
      in and_then (Client_storage_command w c ''append'' key val flags exptime noreply None)
           (\<lambda>result.
              if \<not> noreply \<and> result = Some NOT_STORED then Inl NotStoredStorageCommandError
              else if \<not> noreply \<and> result \<noteq> Some STORED
                then Inl (StorageCommandError result)
              else Inr ()))"

definition Client_prepend :: "world \<Rightarrow> client \<Rightarrow> bytes \<Rightarrow> bytes \<Rightarrow> bool \<Rightarrow> unit outcome" where
  "Client_prepend w c key val noreply =
     (let flags = 0; exptime = 0
      in and_then (Client_storage_command w c ''prepend'' key val flags exptime noreply None)
           (\<lambda>result.
              if \<not> noreply \<and> result = Some NOT_STORED then Inl NotStoredStorageCommandError
              else if \<not> noreply \<and> result \<noteq> Some STORED
                then Inl (StorageCommandError result)
              else Inr ()))"

definition Client_cas ::
  "world \<Rightarrow> client \<Rightarrow> bytes \<Rightarrow> bytes \<Rightarrow> int \<Rightarrow> int \<Rightarrow> int \<Rightarrow> bool \<Rightarrow> unit outcome" where
  "Client_cas w c key val cas flags exptime noreply =
     and_then (Client_storage_command w c ''cas'' key val flags exptime noreply (Some cas))
       (\<lambda>result.
          if \<not> noreply \<and> result = Some EXISTS then Inl NotStoredStorageCommandError
          else if \<not> noreply \<and> result \<noteq> Some STORED then Inl (StorageCommandError result)
          else Inr ())"

section \<open>Python built-ins used by the facade\<close>

text \<open>Truth value of an \<^verbatim>\<open>Optional[bytes]\<close> or \<^verbatim>\<open>Optional[str]\<close>: \<^verbatim>\<open>None\<close> and the empty string are false.\<close>

definition truthy :: "string option \<Rightarrow> bool" where
  "truthy x = (case x of None \<Rightarrow> False | Some s \<Rightarrow> s \<noteq> [])"

text \<open>\<^verbatim>\<open>xs[i]\<close> for an index that is not negative.\<close>

definition index :: "'a list \<Rightarrow> nat \<Rightarrow> exn + 'a" where
  "index xs i = (if i < length xs then Inr (xs ! i) else Inl IndexError)"

definition some :: "exn + 'a \<Rightarrow> exn + 'a option" where
  "some r = (case r of Inl e \<Rightarrow> Inl e | Inr x \<Rightarrow> Inr (Some x))"

text \<open>
  \<^verbatim>\<open>Item(v, f, c)\<close> with the arguments evaluated from left to right: the first one that
  raises decides.
\<close>

definition Item_of :: "exn + bytes \<Rightarrow> exn + int option \<Rightarrow> exn + int option \<Rightarrow> exn + Item" where
  "Item_of v f c =
     (case v of Inl e \<Rightarrow> Inl e
      | Inr v' \<Rightarrow> (case f of Inl e \<Rightarrow> Inl e
          | Inr f' \<Rightarrow> (case c of Inl e \<Rightarrow> Inl e | Inr c' \<Rightarrow> Inr (Item v' f' c'))))"

text \<open>
  \<^verbatim>\<open>int(s)\<close> on an ASCII string, as CPython reads it: white space around, an optional
  sign, decimal digits with single underscores between them; anything else raises
  \<^verbatim>\<open>ValueError\<close> (its message goes on with the literal), and \<^verbatim>\<open>int(None)\<close> raises
  \<^verbatim>\<open>TypeError\<close>. A literal of more digits than \<^verbatim>\<open>sys.get_int_max_str_digits()\<close>, 4300
  unless the interpreter is configured otherwise, raises \<^verbatim>\<open>ValueError\<close> as well. The
  white space of \<^verbatim>\<open>bytes\<close> is the six ASCII characters; that of \<^verbatim>\<open>str\<close> has the four
  separators \<open>0x1C\<close> to \<open>0x1F\<close> in addition (characters beyond ASCII are not
  represented here).
\<close>

definition is_digit :: "char \<Rightarrow> bool" where
  "is_digit c \<longleftrightarrow> (48::nat) \<le> of_char c \<and> (of_char c :: nat) \<le> 57"

definition digit_value :: "char \<Rightarrow> nat" where
  "digit_value c = of_char c - 48"

definition is_space :: "char \<Rightarrow> bool" where
  "is_space c \<longleftrightarrow> c \<in> {CHR 0x20, CHR 0x09, CHR 0x0A, CHR 0x0B, CHR 0x0C, CHR 0x0D}"

definition is_space_str :: "char \<Rightarrow> bool" where
  "is_space_str c \<longleftrightarrow> is_space c \<or> c \<in> {CHR 0x1C, CHR 0x1D, CHR 0x1E, CHR 0x1F}"

definition strip :: "(char \<Rightarrow> bool) \<Rightarrow> string \<Rightarrow> string" where
  "strip space s = rev (dropWhile space (rev (dropWhile space s)))"

fun digits :: "nat \<Rightarrow> string \<Rightarrow> nat option" where
  "digits acc [] = Some acc"
| "digits acc [c] = (if is_digit c then Some (10 * acc + digit_value c) else None)"
| "digits acc (c # d # cs) =
     (if is_digit c then digits (10 * acc + digit_value c) (d # cs)
      else if c = CHR ''_'' \<and> is_digit d then digits (10 * acc + digit_value d) cs
      else None)"

definition int_max_str_digits :: nat where
  "int_max_str_digits = 4300"

definition invalid_literal :: exn where
  "invalid_literal = ValueError ''invalid literal for int() with base 10''"

definition too_many_digits :: exn where
  "too_many_digits = ValueError ''Exceeds the limit (4300 digits) for integer string conversion''"

definition unsigned :: "string \<Rightarrow> exn + int" where
  "unsigned s =
     (case s of [] \<Rightarrow> Inl invalid_literal
      | c # cs \<Rightarrow>
          if is_digit c
          then (case digits (digit_value c) cs of
                  None \<Rightarrow> Inl invalid_literal
                | Some n \<Rightarrow>
                    if length (filter is_digit s) > int_max_str_digits then Inl too_many_digits
                    else Inr (int n))
          else Inl invalid_literal)"

definition py_int :: "(char \<Rightarrow> bool) \<Rightarrow> string option \<Rightarrow> exn + int" where
  "py_int space x =
     (case x of None \<Rightarrow> Inl TypeError
      | Some s \<Rightarrow>
         (case strip space s of
            [] \<Rightarrow> Inl invalid_literal
          | c # cs \<Rightarrow>
              if c = CHR ''-'' then (case unsigned cs of Inl e \<Rightarrow> Inl e | Inr n \<Rightarrow> Inr (- n))
              else if c = CHR ''+'' then unsigned cs
              else unsigned (c # cs)))"

text \<open>\<^verbatim>\<open>int(b)\<close> for \<^verbatim>\<open>b: Optional[bytes]\<close> and \<^verbatim>\<open>int(s)\<close> for \<^verbatim>\<open>s: Optional[str]\<close>.\<close>

definition int_of_bytes :: "bytes option \<Rightarrow> exn + int" where
  "int_of_bytes = py_int is_space"

definition int_of_str :: "string option \<Rightarrow> exn + int" where
  "int_of_str = py_int is_space_str"

text \<open>\<^verbatim>\<open>s.removeprefix(p)\<close>.\<close>

definition removeprefix :: "string \<Rightarrow> string \<Rightarrow> string" where
  "removeprefix p s = (if prefix p s then drop (length p) s else s)"

text \<open>\<^verbatim>\<open>dict(pairs)\<close>: a later pair with the same key wins.\<close>

definition dict :: "('k \<times> 'v) list \<Rightarrow> ('k \<rightharpoonup> 'v)" where
  "dict pairs = map_of (rev pairs)"

section \<open>The client: counters and single-key retrievals\<close>

definition Client_incr_decr_command ::
  "world \<Rightarrow> client \<Rightarrow> bytes \<Rightarrow> bytes \<Rightarrow> int \<Rightarrow> bool \<Rightarrow> bytes option outcome" where
  "Client_incr_decr_command w c command key val noreply =
     (if closed c then raise client_closed_error
      else if val < 0 then raise delta_error
      else if \<not> is_key_valid key then raise key_error
      else on_picked_node w key (Incr_decr_command command key val noreply))"

definition Client_fetch_command :: "world \<Rightarrow> client \<Rightarrow> bytes \<Rightarrow> bytes \<Rightarrow> fetched outcome" where
  "Client_fetch_command w c command key =
     (if closed c then raise client_closed_error
      else if \<not> is_key_valid key then raise key_error
      else fetch_on_picked_node w key (Fetch_command command [key]))"

definition Client_get_and_touch_command ::
  "world \<Rightarrow> client \<Rightarrow> bytes \<Rightarrow> int \<Rightarrow> bytes \<Rightarrow> fetched outcome" where
  "Client_get_and_touch_command w c command exptime key =
     (if closed c then raise client_closed_error
      else if \<not> is_key_valid key then raise key_error
      else fetch_on_picked_node w key (Get_and_touch_command command exptime [key]))"

definition Client_increment ::
  "world \<Rightarrow> client \<Rightarrow> bytes \<Rightarrow> int \<Rightarrow> bool \<Rightarrow> int option outcome" where
  "Client_increment w c key val noreply =
     and_then (Client_incr_decr_command w c ''incr'' key val noreply)
       (\<lambda>result.
          if noreply then Inr None
          else if result = Some NOT_FOUND then Inl NotFoundCommandError
          else some (int_of_bytes result))"

definition Client_decrement ::
  "world \<Rightarrow> client \<Rightarrow> bytes \<Rightarrow> int \<Rightarrow> bool \<Rightarrow> int option outcome" where
  "Client_decrement w c key val noreply =
     and_then (Client_incr_decr_command w c ''decr'' key val noreply)
       (\<lambda>result.
          if noreply then Inr None
          else if result = Some NOT_FOUND then Inl NotFoundCommandError
          else some (int_of_bytes result))"







section \<open>The client: keyed commands and per-node commands\<close>

definition Client_touch :: "world \<Rightarrow> client \<Rightarrow> bytes \<Rightarrow> int \<Rightarrow> bool \<Rightarrow> unit outcome" where
  "Client_touch w c key exptime noreply =
     (if closed c then raise client_closed_error
      else if \<not> is_key_valid key then raise key_error
      else and_then (on_picked_node w key (Touch_command key exptime noreply))
        (\<lambda>result.
           if noreply then Inr ()
           else if result = Some NOT_FOUND then Inl NotFoundCommandError
           else if result \<noteq> Some TOUCHED then Inl (CommandError result)
           else Inr ()))"

definition Client_delete :: "world \<Rightarrow> client \<Rightarrow> bytes \<Rightarrow> bool \<Rightarrow> unit outcome" where
  "Client_delete w c key noreply =
     (if closed c then raise client_closed_error
      else if \<not> is_key_valid key then raise key_error
      else and_then (on_picked_node w key (Delete_command key noreply))
        (\<lambda>result.
           if noreply then Inr ()
           else if result = Some NOT_FOUND then Inl NotFoundCommandError
           else if result \<noteq> Some DELETED then Inl (CommandError result)
           else Inr ()))"







section \<open>The client: multi-node fan-out\<close>

text \<open>
  A task created with \<^verbatim>\<open>create_task\<close> is pending, finished with the value or the
  exception of its coroutine, or has had \<^verbatim>\<open>cancel()\<close> called on it.
\<close>

datatype 'a task = Pending | Finished "exn + 'a" | Cancelled

definition task_done :: "'a task \<Rightarrow> bool" where
  "task_done t = (case t of Pending \<Rightarrow> False | _ \<Rightarrow> True)"

text \<open>\<^verbatim>\<open>for task in tasks: if not task.done(): task.cancel()\<close>\<close>

definition cancel_not_done :: "'a task list \<Rightarrow> 'a task list" where
  "cancel_not_done tasks = map (\<lambda>t. if \<not> task_done t then Cancelled else t) tasks"

text \<open>
  \<^verbatim>\<open>await asyncio.gather(*tasks)\<close> under the operation timeout. \<open>outs\<close> is what each
  task's coroutine ends with, \<open>order\<close> the order in which the event loop completes tasks.
  \<^verbatim>\<open>gather\<close> returns once every task is done, and raises the exception of the first task
  that fails, at once and leaving the other tasks as they are. When no further task
  completes, the deadline, if there is one, cancels the waiting call and, through
  \<^verbatim>\<open>gather\<close>, the tasks that are not done; with no deadline the call never returns, which
  is \<open>None\<close>.
\<close>

datatype waited = Returned | Raised exn | Deadline

fun gather ::
  "bool \<Rightarrow> (exn + 'a) list \<Rightarrow> nat list \<Rightarrow> 'a task list \<Rightarrow> ('a task list \<times> waited) option"
  where
  "gather deadline outs [] tasks =
     (if list_all task_done tasks then Some (tasks, Returned)
      else if deadline then Some (cancel_not_done tasks, Deadline)
      else None)"
| "gather deadline outs (i # order) tasks =
     (if list_all task_done tasks then Some (tasks, Returned)
      else if i < length tasks \<and> i < length outs \<and> \<not> task_done (tasks ! i) then
        (case outs ! i of
           Inl e \<Rightarrow> Some (tasks[i := Finished (Inl e)], Raised e)
         | Inr r \<Rightarrow> gather deadline outs order (tasks[i := Finished (Inr r)]))
      else gather deadline outs order tasks)"

text \<open>
  The statement \<^verbatim>\<open>try: await asyncio.gather(*tasks)\<close> with its handler
  \<^verbatim>\<open>except Exception: ... task.cancel() ...; raise\<close>, inside \<^verbatim>\<open>async with OpTimeout\<close>: an
  exception of class \<^verbatim>\<open>Exception\<close> is caught, the tasks that are not done are cancelled
  and it is raised again; \<^verbatim>\<open>asyncio.CancelledError\<close> passes the handler by, and the tasks
  stay as they are; the deadline surfaces as the timeout error.
\<close>

definition try_gather ::
  "bool \<Rightarrow> (exn + 'a) list \<Rightarrow> nat list \<Rightarrow> 'a task list \<Rightarrow> ('a task list \<times> (exn + unit)) option"
  where
  "try_gather deadline outs order tasks =
     (case gather deadline outs order tasks of
        None \<Rightarrow> None
      | Some (tasks', Returned) \<Rightarrow> Some (tasks', Inr ())
      | Some (tasks', Raised e) \<Rightarrow>
          if is_Exception e then Some (cancel_not_done tasks', Inl e) else Some (tasks', Inl e)
      | Some (tasks', Deadline) \<Rightarrow> Some (tasks', Inl TimeoutError))"

text \<open>\<^verbatim>\<open>task.result()\<close> and \<^verbatim>\<open>[task.result() for task in tasks]\<close>.\<close>

definition task_result :: "'a task \<Rightarrow> exn + 'a" where
  "task_result t =
     (case t of Pending \<Rightarrow> Inl InvalidStateError | Cancelled \<Rightarrow> Inl CancelledError
      | Finished r \<Rightarrow> r)"

fun results_of :: "'a task list \<Rightarrow> exn + 'a list" where
  "results_of [] = Inr []"
| "results_of (t # ts) =
     (case task_result t of
        Inl e \<Rightarrow> Inl e
      | Inr r \<Rightarrow> (case results_of ts of Inl e \<Rightarrow> Inl e | Inr rs \<Rightarrow> Inr (r # rs)))"

text \<open>
  A fan-out call returns, if it returns, its events, the tasks it created as they are
  when it returns, and its exception or value.
\<close>

type_synonym 'a fanout = "(event list \<times> fetched task list \<times> (exn + 'a)) option"

text \<open>
  The tasks of one request per node, the wait for them and the list of their results.
\<close>

definition run_tasks :: "world \<Rightarrow> client \<Rightarrow> bytes list \<Rightarrow> (node \<times> request) list
     \<Rightarrow> fetched list fanout" where
  "run_tasks w c keys calls =
     (let events = Pick_nodes keys # map (\<lambda>(node, req). Create_task node req) calls;
          outs = map (\<lambda>(node, req). connection_fetch w node req) calls;
          tasks = replicate (length calls) Pending
      in case try_gather (timeout c \<noteq> None) outs (completion_order w) tasks of
           None \<Rightarrow> None
         | Some (tasks', Inl e) \<Rightarrow> Some (events, tasks', Inl e)
         | Some (tasks', Inr _) \<Rightarrow> Some (events, tasks', results_of tasks'))"

definition Client_fetch_many_command ::
  "world \<Rightarrow> client \<Rightarrow> bytes \<Rightarrow> bytes list \<Rightarrow> bool \<Rightarrow> fetched list fanout" where
  "Client_fetch_many_command w c command keys return_flags =
     (if closed c then Some ([], [], Inl client_closed_error)
      else if keys = [] then Some ([], [], Inr [])
      else if list_ex (\<lambda>key. \<not> is_key_valid key) keys then Some ([], [], Inl key_error)
      else run_tasks w c keys
             (map (\<lambda>(node, keys). (node, Fetch_command command keys)) (pick_nodes w keys)))"

definition Client_get_and_touch_many_command ::
  "world \<Rightarrow> client \<Rightarrow> bytes \<Rightarrow> int \<Rightarrow> bytes list \<Rightarrow> bool \<Rightarrow> fetched list fanout" where
  "Client_get_and_touch_many_command w c command exptime keys return_flags =
     (if closed c then Some ([], [], Inl client_closed_error)
      else if keys = [] then Some ([], [], Inr [])
      else if list_ex (\<lambda>key. \<not> is_key_valid key) keys then Some ([], [], Inl key_error)
      else run_tasks w c keys
             (map (\<lambda>(node, keys). (node, Get_and_touch_command command exptime keys))
                (pick_nodes w keys)))"

text \<open>
  \<^verbatim>\<open>for idx in range(len(keys)): results[keys[idx]] = item(idx)\<close>, and around it
  \<^verbatim>\<open>for keys, values, flags, cas, client_error in nodes_results\<close> with the check of
  \<^verbatim>\<open>client_error\<close>.
\<close>

fun store_items ::
  "(nat \<Rightarrow> exn + Item) \<Rightarrow> bytes list \<Rightarrow> nat list \<Rightarrow> (bytes \<rightharpoonup> Item) \<Rightarrow> exn + (bytes \<rightharpoonup> Item)"
  where
  "store_items item keys [] results = Inr results"
| "store_items item keys (idx # idxs) results =
     (case item idx of
        Inl e \<Rightarrow> Inl e
      | Inr it \<Rightarrow> store_items item keys idxs (results(keys ! idx \<mapsto> it)))"

fun for_nodes_results ::
  "(fetched \<Rightarrow> nat \<Rightarrow> exn + Item) \<Rightarrow> fetched list \<Rightarrow> (bytes \<rightharpoonup> Item) \<Rightarrow> exn + (bytes \<rightharpoonup> Item)"
  where
  "for_nodes_results item [] results = Inr results"
| "for_nodes_results item ((keys, vals, flags, cas, client_error) # rest) results =
     (if truthy client_error then Inl (CommandError client_error)
      else case store_items (item (keys, vals, flags, cas, client_error)) keys
                  [0 ..< length keys] results of
             Inl e \<Rightarrow> Inl e
           | Inr results' \<Rightarrow> for_nodes_results item rest results')"

text \<open>The code after the fan-out: the tasks are dropped, the value is worked on.\<close>

definition after_fanout :: "'a fanout \<Rightarrow> ('a \<Rightarrow> exn + 'b) \<Rightarrow> 'b outcome option" where
  "after_fanout m f =
     (case m of
        None \<Rightarrow> None
      | Some (tr, tasks, Inl e) \<Rightarrow> Some (tr, Inl e)
      | Some (tr, tasks, Inr x) \<Rightarrow> Some (tr, f x))"

definition Client_get_many ::
  "world \<Rightarrow> client \<Rightarrow> bytes list \<Rightarrow> bool \<Rightarrow> (bytes \<rightharpoonup> Item) outcome option" where
  "Client_get_many w c keys return_flags =
     after_fanout (Client_fetch_many_command w c ''get'' keys return_flags)
       (\<lambda>nodes_results.
          if \<not> return_flags then
            for_nodes_results
              (\<lambda>(keys, vals, flags, cas, client_error) idx.
                 Item_of (index vals idx) (Inr None) (Inr None))
              nodes_results Map.empty
          else
            for_nodes_results
              (\<lambda>(keys, vals, flags, cas, client_error) idx.
                 Item_of (index vals idx) (some (index flags idx)) (Inr None))
              nodes_results Map.empty)"

definition Client_gets_many ::
  "world \<Rightarrow> client \<Rightarrow> bytes list \<Rightarrow> bool \<Rightarrow> (bytes \<rightharpoonup> Item) outcome option" where
  "Client_gets_many w c keys return_flags =
     after_fanout (Client_fetch_many_command w c ''gets'' keys return_flags)
       (\<lambda>nodes_results.
          if \<not> return_flags then
            for_nodes_results
              (\<lambda>(keys, vals, flags, cas, client_error) idx.
                 Item_of (index vals idx) (Inr None) (some (index cas idx)))
              nodes_results Map.empty
          else
            for_nodes_results
              (\<lambda>(keys, vals, flags, cas, client_error) idx.
                 Item_of (index vals idx) (some (index flags idx)) (some (index cas idx)))
              nodes_results Map.empty)"

definition Client_gat_many ::
  "world \<Rightarrow> client \<Rightarrow> int \<Rightarrow> bytes list \<Rightarrow> bool \<Rightarrow> (bytes \<rightharpoonup> Item) outcome option" where
  "Client_gat_many w c exptime keys return_flags =
     after_fanout (Client_get_and_touch_many_command w c ''gat'' exptime keys return_flags)
       (\<lambda>nodes_results.
          if \<not> return_flags then
            for_nodes_results
              (\<lambda>(keys, vals, flags, cas, client_error) idx.
                 Item_of (index vals idx) (Inr None) (Inr None))
              nodes_results Map.empty
          else
            for_nodes_results
              (\<lambda>(keys, vals, flags, cas, client_error) idx.
                 Item_of (index vals idx) (some (index flags idx)) (Inr None))
              nodes_results Map.empty)"

definition Client_gats_many ::
  "world \<Rightarrow> client \<Rightarrow> int \<Rightarrow> bytes list \<Rightarrow> bool \<Rightarrow> (bytes \<rightharpoonup> Item) outcome option" where
  "Client_gats_many w c exptime keys return_flags =
     after_fanout (Client_get_and_touch_many_command w c ''gats'' exptime keys return_flags)
       (\<lambda>nodes_results.
          if \<not> return_flags then
            for_nodes_results
              (\<lambda>(keys, vals, flags, cas, client_error) idx.
                 Item_of (index vals idx) (Inr None) (some (index cas idx)))
              nodes_results Map.empty
          else
            for_nodes_results
              (\<lambda>(keys, vals, flags, cas, client_error) idx.
                 Item_of (index vals idx) (some (index flags idx)) (some (index cas idx)))
              nodes_results Map.empty)"

section \<open>The pipeline\<close>

text \<open>
  \<^verbatim>\<open>%a\<close> of an integer in a bytes format: its decimal digits, with a minus sign when
  negative.
\<close>

fun nat_repr :: "nat \<Rightarrow> string" where
  "nat_repr n =
     (if n < 10 then [char_of (48 + n)] else nat_repr (n div 10) @ [char_of (48 + n mod 10)])"

declare nat_repr.simps [simp del]

definition repr :: "int \<Rightarrow> string" where
  "repr i = (if i < 0 then CHR ''-'' # nat_repr (nat (- i)) else nat_repr (nat i))"

definition crlf :: bytes where
  "crlf = [CHR 0x0D, CHR 0x0A]"

text \<open>\<^verbatim>\<open>sep.join(xs)\<close>\<close>

fun join :: "string \<Rightarrow> string list \<Rightarrow> string" where
  "join sep [] = []"
| "join sep [x] = x"
| "join sep (x # y # ys) = x @ sep @ join sep (y # ys)"

text \<open>
  A \<^verbatim>\<open>_Pipeline\<close>: the address and the stack of serialised commands. Its third attribute
  is a reference to the client, so \<^verbatim>\<open>execute\<close> below takes the client as it is at the
  time of the call.
\<close>

record pipeline =
  memcached_host_address :: address
  stack :: "bytes list"

definition Client_pipeline :: "address \<Rightarrow> pipeline" where
  "Client_pipeline a = \<lparr>memcached_host_address = a, stack = []\<rparr>"


definition Pipeline_retrieval_command :: "bytes \<Rightarrow> bytes list \<Rightarrow> exn + bytes" where
  "Pipeline_retrieval_command command keys =
     (if list_ex (\<lambda>key. \<not> is_key_valid key) keys then Inl key_error
      else Inr (command @ '' '' @ join '' '' keys @ crlf))"

definition Pipeline_storage_command ::
  "bytes \<Rightarrow> bytes \<Rightarrow> bytes \<Rightarrow> int \<Rightarrow> int \<Rightarrow> bool \<Rightarrow> int option \<Rightarrow> exn + bytes" where
  "Pipeline_storage_command command key val flags exptime noreply cas =
     (if (case cas of None \<Rightarrow> False | Some n \<Rightarrow> n > MAX_ALLOWED_CAS_VALUE) then Inl flags_error
      else if flags > MAX_ALLOWED_FLAG_VALUE then Inl flags_error
      else if \<not> is_key_valid key then Inl key_error
      else
        let extra =
          (case cas of
             Some n \<Rightarrow> if \<not> noreply then '' '' @ repr n else '' '' @ repr n @ '' noreply''
           | None \<Rightarrow> if \<not> noreply then [] else '' noreply'')
        in Inr (command @ '' '' @ key @ '' '' @ repr flags @ '' '' @ repr exptime @ '' ''
                @ repr (int (length val)) @ extra @ crlf @ val @ crlf))"

definition Pipeline_incr_decr_command :: "bytes \<Rightarrow> bytes \<Rightarrow> int \<Rightarrow> bool \<Rightarrow> exn + bytes" where
  "Pipeline_incr_decr_command command key val noreply =
     (if val < 0 then Inl delta_error
      else if \<not> is_key_valid key then Inl key_error
      else Inr (command @ '' '' @ key @ '' '' @ repr val
                @ (if noreply then '' noreply'' else []) @ crlf))"

definition Pipeline_get_and_touch_command :: "bytes \<Rightarrow> int \<Rightarrow> bytes list \<Rightarrow> exn + bytes" where
  "Pipeline_get_and_touch_command command exptime keys =
     (if list_ex (\<lambda>key. \<not> is_key_valid key) keys then Inl key_error
      else Inr (command @ '' '' @ repr exptime @ '' '' @ join '' '' keys @ crlf))"

text \<open>
  \<^verbatim>\<open>self.stack.append(command); return self\<close>, where building the command may raise
  before anything is appended.
\<close>

definition push :: "pipeline \<Rightarrow> exn + bytes \<Rightarrow> exn + pipeline" where
  "push p command =
     (case command of Inl e \<Rightarrow> Inl e | Inr b \<Rightarrow> Inr (p\<lparr>stack := stack p @ [b]\<rparr>))"

definition Pipeline_get :: "pipeline \<Rightarrow> bytes \<Rightarrow> exn + pipeline" where
  "Pipeline_get p key = push p (Pipeline_retrieval_command ''get'' [key])"

definition Pipeline_gets :: "pipeline \<Rightarrow> bytes \<Rightarrow> exn + pipeline" where
  "Pipeline_gets p key = push p (Pipeline_retrieval_command ''gets'' [key])"

definition Pipeline_get_many :: "pipeline \<Rightarrow> bytes list \<Rightarrow> exn + pipeline" where
  "Pipeline_get_many p keys = push p (Pipeline_retrieval_command ''get'' keys)"

definition Pipeline_gets_many :: "pipeline \<Rightarrow> bytes list \<Rightarrow> exn + pipeline" where
  "Pipeline_gets_many p keys = push p (Pipeline_retrieval_command ''gets'' keys)"

definition Pipeline_set ::
  "pipeline \<Rightarrow> bytes \<Rightarrow> bytes \<Rightarrow> int \<Rightarrow> int \<Rightarrow> bool \<Rightarrow> exn + pipeline" where
  "Pipeline_set p key val flags exptime noreply =
     push p (Pipeline_storage_command ''set'' key val flags exptime noreply None)"

definition Pipeline_add ::
  "pipeline \<Rightarrow> bytes \<Rightarrow> bytes \<Rightarrow> int \<Rightarrow> int \<Rightarrow> bool \<Rightarrow> exn + pipeline" where
  "Pipeline_add p key val flags exptime noreply =
     push p (Pipeline_storage_command ''add'' key val flags exptime noreply None)"

definition Pipeline_replace ::
  "pipeline \<Rightarrow> bytes \<Rightarrow> bytes \<Rightarrow> int \<Rightarrow> int \<Rightarrow> bool \<Rightarrow> exn + pipeline" where
  "Pipeline_replace p key val flags exptime noreply =
     push p (Pipeline_storage_command ''replace'' key val flags exptime noreply None)"

definition Pipeline_append :: "pipeline \<Rightarrow> bytes \<Rightarrow> bytes \<Rightarrow> bool \<Rightarrow> exn + pipeline" where
  "Pipeline_append p key val noreply =
     push p (Pipeline_storage_command ''append'' key val 0 0 noreply None)"

definition Pipeline_prepend :: "pipeline \<Rightarrow> bytes \<Rightarrow> bytes \<Rightarrow> bool \<Rightarrow> exn + pipeline" where
  "Pipeline_prepend p key val noreply =
     push p (Pipeline_storage_command ''prepend'' key val 0 0 noreply None)"

definition Pipeline_cas ::
  "pipeline \<Rightarrow> bytes \<Rightarrow> bytes \<Rightarrow> int \<Rightarrow> int \<Rightarrow> int \<Rightarrow> bool \<Rightarrow> exn + pipeline" where
  "Pipeline_cas p key val cas flags exptime noreply =
     push p (Pipeline_storage_command ''cas'' key val flags exptime noreply (Some cas))"

definition Pipeline_increment :: "pipeline \<Rightarrow> bytes \<Rightarrow> int \<Rightarrow> bool \<Rightarrow> exn + pipeline" where
  "Pipeline_increment p key val noreply =
     push p (Pipeline_incr_decr_command ''incr'' key val noreply)"

definition Pipeline_decrement :: "pipeline \<Rightarrow> bytes \<Rightarrow> int \<Rightarrow> bool \<Rightarrow> exn + pipeline" where
  "Pipeline_decrement p key val noreply =
     push p (Pipeline_incr_decr_command ''decr'' key val noreply)"

definition Pipeline_touch :: "pipeline \<Rightarrow> bytes \<Rightarrow> int \<Rightarrow> bool \<Rightarrow> exn + pipeline" where
  "Pipeline_touch p key exptime noreply =
     push p (Inr (''touch '' @ key @ '' '' @ repr exptime
                  @ (if noreply then '' noreply'' else []) @ crlf))"

definition Pipeline_delete :: "pipeline \<Rightarrow> bytes \<Rightarrow> bool \<Rightarrow> exn + pipeline" where
  "Pipeline_delete p key noreply =
     push p (Inr (''delete '' @ key @ (if noreply then '' noreply'' else []) @ crlf))"

definition Pipeline_flush_all :: "pipeline \<Rightarrow> int \<Rightarrow> bool \<Rightarrow> exn + pipeline" where
  "Pipeline_flush_all p delay noreply =
     push p (Inr (''flush_all '' @ repr delay @ (if noreply then '' noreply'' else []) @ crlf))"

definition Pipeline_version :: "pipeline \<Rightarrow> exn + pipeline" where
  "Pipeline_version p = push p (Inr (''version'' @ crlf))"

definition Pipeline_gat :: "pipeline \<Rightarrow> int \<Rightarrow> bytes \<Rightarrow> exn + pipeline" where
  "Pipeline_gat p exptime key = push p (Pipeline_get_and_touch_command ''gat'' exptime [key])"

definition Pipeline_gats :: "pipeline \<Rightarrow> int \<Rightarrow> bytes \<Rightarrow> exn + pipeline" where
  "Pipeline_gats p exptime key = push p (Pipeline_get_and_touch_command ''gats'' exptime [key])"

definition Pipeline_gat_many :: "pipeline \<Rightarrow> int \<Rightarrow> bytes list \<Rightarrow> exn + pipeline" where
  "Pipeline_gat_many p exptime keys =
     push p (Pipeline_get_and_touch_command ''gat'' exptime keys)"

definition Pipeline_gats_many :: "pipeline \<Rightarrow> int \<Rightarrow> bytes list \<Rightarrow> exn + pipeline" where
  "Pipeline_gats_many p exptime keys =
     push p (Pipeline_get_and_touch_command ''gats'' exptime keys)"

definition Pipeline_cache_memlimit :: "pipeline \<Rightarrow> int \<Rightarrow> bool \<Rightarrow> exn + pipeline" where
  "Pipeline_cache_memlimit p val noreply =
     push p (Inr (''cache_memlimit '' @ repr val
                  @ (if noreply then '' noreply'' else []) @ crlf))"

text \<open>The arguments of \<^verbatim>\<open>stats\<close> are taken as already encoded.\<close>

definition Pipeline_stats :: "pipeline \<Rightarrow> string list \<Rightarrow> exn + pipeline" where
  "Pipeline_stats p args =
     push p (Inr (if args \<noteq> [] then ''stats '' @ join '' '' args @ crlf else ''stats'' @ crlf))"

definition Pipeline_verbosity :: "pipeline \<Rightarrow> int \<Rightarrow> bool \<Rightarrow> exn + pipeline" where
  "Pipeline_verbosity p level noreply =
     push p (Inr (''verbosity '' @ repr level @ (if noreply then '' noreply'' else []) @ crlf))"

subsection \<open>Executing a pipeline\<close>

text \<open>
  An element of the list \<^verbatim>\<open>execute\<close> returns: a string (a status, an error message, a
  version), an \<^verbatim>\<open>Item(data, flags, cas)\<close> built from the groups of a match (its value
  is the text of the group \<^verbatim>\<open>data\<close>, or \<^verbatim>\<open>None\<close>), a dictionary of statistics, or an
  integer.
\<close>

datatype response =
    Text string
  | Item_of_groups "string option" int "int option"
  | Dict "string \<rightharpoonup> string"
  | Number int

text \<open>\<^verbatim>\<open>if name := groups[...]\<close>: the text when it is true, that is not empty.\<close>

definition walrus :: "string option \<Rightarrow> string option" where
  "walrus x = (if truthy x then x else None)"

text \<open>
  The body of the loop over the matches: the record appended for one match, \<open>None\<close> when
  the final \<^verbatim>\<open>else\<close> is reached and nothing is appended.
\<close>

definition record_of :: "world \<Rightarrow> groupdict \<Rightarrow> exn + response option" where
  "record_of w groups =
     (case walrus (groups ''error_message'') of Some error_message \<Rightarrow> Inr (Some (Text error_message))
      | None \<Rightarrow>
     (case walrus (groups ''client_error'') of Some client_error \<Rightarrow> Inr (Some (Text client_error))
      | None \<Rightarrow>
      if truthy (groups ''error'') then Inr (Some (Text ''ERROR''))
      else if truthy (groups ''stored'') then Inr (Some (Text ''STORED''))
      else if truthy (groups ''not_stored'') then Inr (Some (Text ''NOT_STORED''))
      else if truthy (groups ''exists'') then Inr (Some (Text ''EXISTS''))
      else if truthy (groups ''not_found'') then Inr (Some (Text ''NOT_FOUND''))
      else if truthy (groups ''end'') then Inr (Some (Text ''END''))
      else if truthy (groups ''value'') then
        (case int_of_str (groups ''flags'') of
           Inl e \<Rightarrow> Inl e
         | Inr flags \<Rightarrow>
             if truthy (groups ''cas'') then
               (case int_of_str (groups ''cas'') of
                  Inl e \<Rightarrow> Inl e
                | Inr cas \<Rightarrow> Inr (Some (Item_of_groups (groups ''data'') flags (Some cas))))
             else Inr (Some (Item_of_groups (groups ''data'') flags None)))
      else if truthy (groups ''deleted'') then Inr (Some (Text ''DELETED''))
      else if truthy (groups ''touched'') then Inr (Some (Text ''TOUCHED''))
      else
     (case walrus (groups ''version'') of
        Some version \<Rightarrow> Inr (Some (Text (removeprefix ''VERSION '' version)))
      | None \<Rightarrow>
      if truthy (groups ''ok'') then Inr (Some (Text ''OK''))
      else
     (case walrus (groups ''stats'') of Some stats \<Rightarrow> Inr (Some (Dict (dict (stat_groups w stats))))
      | None \<Rightarrow>
     (case walrus (groups ''incr_decr_value'') of
        Some incr_decr_value \<Rightarrow>
          (case int_of_str (Some incr_decr_value) of Inl e \<Rightarrow> Inl e | Inr n \<Rightarrow> Inr (Some (Number n)))
      | None \<Rightarrow> Inr None)))))"

text \<open>\<^verbatim>\<open>for i in regex_memcached_responses.finditer(...)\<close> with \<^verbatim>\<open>response.append\<close>.\<close>

fun responses :: "world \<Rightarrow> groupdict list \<Rightarrow> response list \<Rightarrow> exn + response list" where
  "responses w [] response = Inr response"
| "responses w (groups # rest) response =
     (case record_of w groups of
        Inl e \<Rightarrow> Inl e
      | Inr None \<Rightarrow> responses w rest response
      | Inr (Some r) \<Rightarrow> responses w rest (response @ [r]))"

text \<open>
  \<^verbatim>\<open>execute()\<close>: the pipeline after the call and the outcome. The stack is emptied by the
  last statement only, so it is kept when anything before raises.
\<close>

definition Pipeline_execute ::
  "world \<Rightarrow> client \<Rightarrow> pipeline \<Rightarrow> pipeline \<times> response list outcome" where
  "Pipeline_execute w c p =
     (if closed c then (p, raise client_closed_error)
      else
        let commands = concat (stack p)
        in case on_cluster_node w (memcached_host_address p) (Extract_pipeline_data commands) of
             (tr, Inl e) \<Rightarrow> (p, (tr, Inl e))
           | (tr, Inr None) \<Rightarrow> (p, (tr, Inl AttributeError))
           | (tr, Inr (Some result)) \<Rightarrow>
               (case decode w result of
                  Inl e \<Rightarrow> (p, (tr, Inl e))
                | Inr text \<Rightarrow>
                    (case responses w (regex_memcached_responses w text) [] of
                       Inl e \<Rightarrow> (p, (tr, Inl e))
                     | Inr response \<Rightarrow> (p\<lparr>stack := []\<rparr>, (tr, Inr response)))))"

subsection \<open>Programs of builder calls\<close>

text \<open>
  A caller's use of the builder is a sequence of method calls; each constructor is one
  method of \<^verbatim>\<open>_Pipeline\<close> with its arguments.
\<close>

datatype call =
    Get bytes
  | Gets bytes
  | Get_many "bytes list"
  | Gets_many "bytes list"
  | Set bytes bytes int int bool
  | Add bytes bytes int int bool
  | Replace bytes bytes int int bool
  | Append bytes bytes bool
  | Prepend bytes bytes bool
  | Cas bytes bytes int int int bool
  | Increment bytes int bool
  | Decrement bytes int bool
  | Touch bytes int bool
  | Delete bytes bool
  | Flush_all int bool
  | Version
  | Gat int bytes
  | Gats int bytes
  | Gat_many int "bytes list"
  | Gats_many int "bytes list"
  | Cache_memlimit int bool
  | Stats "string list"
  | Verbosity int bool

fun invoke :: "pipeline \<Rightarrow> call \<Rightarrow> exn + pipeline" where
  "invoke p (Get key) = Pipeline_get p key"
| "invoke p (Gets key) = Pipeline_gets p key"
| "invoke p (Get_many keys) = Pipeline_get_many p keys"
| "invoke p (Gets_many keys) = Pipeline_gets_many p keys"
| "invoke p (Set key val flags exptime noreply) = Pipeline_set p key val flags exptime noreply"
| "invoke p (Add key val flags exptime noreply) = Pipeline_add p key val flags exptime noreply"
| "invoke p (Replace key val flags exptime noreply) =
     Pipeline_replace p key val flags exptime noreply"
| "invoke p (Append key val noreply) = Pipeline_append p key val noreply"
| "invoke p (Prepend key val noreply) = Pipeline_prepend p key val noreply"
| "invoke p (Cas key val cas flags exptime noreply) =
     Pipeline_cas p key val cas flags exptime noreply"
| "invoke p (Increment key val noreply) = Pipeline_increment p key val noreply"
| "invoke p (Decrement key val noreply) = Pipeline_decrement p key val noreply"
| "invoke p (Touch key exptime noreply) = Pipeline_touch p key exptime noreply"
| "invoke p (Delete key noreply) = Pipeline_delete p key noreply"
| "invoke p (Flush_all delay noreply) = Pipeline_flush_all p delay noreply"
| "invoke p Version = Pipeline_version p"
| "invoke p (Gat exptime key) = Pipeline_gat p exptime key"
| "invoke p (Gats exptime key) = Pipeline_gats p exptime key"
| "invoke p (Gat_many exptime keys) = Pipeline_gat_many p exptime keys"
| "invoke p (Gats_many exptime keys) = Pipeline_gats_many p exptime keys"
| "invoke p (Cache_memlimit val noreply) = Pipeline_cache_memlimit p val noreply"
| "invoke p (Stats args) = Pipeline_stats p args"
| "invoke p (Verbosity level noreply) = Pipeline_verbosity p level noreply"

text \<open>A chain \<^verbatim>\<open>pipe.a(...).b(...)\<close>: it stops at the first call that raises.\<close>

fun chain :: "pipeline \<Rightarrow> call list \<Rightarrow> exn + pipeline" where
  "chain p [] = Inr p"
| "chain p (cl # cls) = (case invoke p cl of Inl e \<Rightarrow> Inl e | Inr p' \<Rightarrow> chain p' cls)"

section \<open>The first error of a fan-out\<close>





text \<open>
  White space, to \<^verbatim>\<open>int\<close>, is a set of characters with no digit and no minus sign in
  it.
\<close>

definition blank :: "(char \<Rightarrow> bool) \<Rightarrow> bool" where
  "blank space \<longleftrightarrow> (\<forall>c. space c \<longrightarrow> \<not> is_digit c \<and> c \<noteq> CHR ''-'')"

section \<open>The items of a reply\<close>




section \<open>The wire format of a command\<close>






section \<open>The answers in a consolidated reply\<close>

text \<open>
  The words of the pipeline claim, to compare the loop of \<^verbatim>\<open>execute\<close> with: the terminal
  responses of the text protocol as the reply pattern presents them, each by the named
  groups that \<^verbatim>\<open>execute\<close> reads, and the typed record that stands for each: the message
  of an error line, the token of a status line, an item for a value, the version text,
  the map of a statistics block, the integer of a counter reply. The text that a status
  or a value group itself matches plays no part beyond not being empty.
\<close>

datatype status =
    S_error | S_stored | S_not_stored | S_exists | S_not_found | S_end
  | S_deleted | S_touched | S_ok

fun status_group :: "status \<Rightarrow> string" where
  "status_group S_error = ''error''"
| "status_group S_stored = ''stored''"
| "status_group S_not_stored = ''not_stored''"
| "status_group S_exists = ''exists''"
| "status_group S_not_found = ''not_found''"
| "status_group S_end = ''end''"
| "status_group S_deleted = ''deleted''"
| "status_group S_touched = ''touched''"
| "status_group S_ok = ''ok''"

fun status_token :: "status \<Rightarrow> string" where
  "status_token S_error = ''ERROR''"
| "status_token S_stored = ''STORED''"
| "status_token S_not_stored = ''NOT_STORED''"
| "status_token S_exists = ''EXISTS''"
| "status_token S_not_found = ''NOT_FOUND''"
| "status_token S_end = ''END''"
| "status_token S_deleted = ''DELETED''"
| "status_token S_touched = ''TOUCHED''"
| "status_token S_ok = ''OK''"

datatype answer =
    Error_line string
  | Client_error_line string
  | Status_line status string
  | Value_block string string nat "nat option"
  | Version_line string
  | Stats_block string
  | Counter_line nat

fun groups_of :: "answer \<Rightarrow> groupdict" where
  "groups_of (Error_line message) = [''error_message'' \<mapsto> message]"
| "groups_of (Client_error_line message) = [''client_error'' \<mapsto> message]"
| "groups_of (Status_line st matched) = [status_group st \<mapsto> matched]"
| "groups_of (Value_block matched data flags cas) =
     (\<lambda>name. if name = ''value'' then Some matched
              else if name = ''data'' then Some data
              else if name = ''flags'' then Some (nat_repr flags)
              else if name = ''cas'' then map_option nat_repr cas
              else None)"
| "groups_of (Version_line version) = [''version'' \<mapsto> ''VERSION '' @ version]"
| "groups_of (Stats_block stats) = [''stats'' \<mapsto> stats]"
| "groups_of (Counter_line n) = [''incr_decr_value'' \<mapsto> nat_repr n]"

text \<open>The names of the groups that \<^verbatim>\<open>execute\<close> reads.\<close>

definition read_groups :: "string list" where
  "read_groups =
     [''error_message'', ''client_error'', ''error'', ''stored'', ''not_stored'', ''exists'',
      ''not_found'', ''end'', ''value'', ''data'', ''flags'', ''cas'', ''deleted'', ''touched'',
      ''version'', ''ok'', ''stats'', ''incr_decr_value'']"

text \<open>A match presents an answer when it agrees with it on every group that is read.\<close>

definition presents :: "groupdict \<Rightarrow> answer \<Rightarrow> bool" where
  "presents groups a = list_all (\<lambda>name. groups name = groups_of a name) read_groups"

text \<open>
  An answer is legible when its texts are not empty and its numbers have no more digits
  than \<^verbatim>\<open>int\<close> accepts.
\<close>

definition short :: "nat \<Rightarrow> bool" where
  "short n \<longleftrightarrow> length (nat_repr n) \<le> int_max_str_digits"

fun legible :: "answer \<Rightarrow> bool" where
  "legible (Error_line message) = (message \<noteq> [])"
| "legible (Client_error_line message) = (message \<noteq> [])"
| "legible (Status_line st matched) = (matched \<noteq> [])"
| "legible (Value_block matched data flags cas) =
     (matched \<noteq> [] \<and> short flags \<and> (case cas of None \<Rightarrow> True | Some n \<Rightarrow> short n))"
| "legible (Version_line version) = True"
| "legible (Stats_block stats) = (stats \<noteq> [])"
| "legible (Counter_line n) = short n"

fun record_for :: "world \<Rightarrow> answer \<Rightarrow> response" where
  "record_for w (Error_line message) = Text message"
| "record_for w (Client_error_line message) = Text message"
| "record_for w (Status_line st matched) = Text (status_token st)"
| "record_for w (Value_block matched data flags cas) =
     Item_of_groups (Some data) (int flags) (map_option int cas)"
| "record_for w (Version_line version) = Text version"
| "record_for w (Stats_block stats) = Dict (dict (stat_groups w stats))"
| "record_for w (Counter_line n) = Number (int n)"

section \<open>Sample worlds\<close>

text \<open>
  Concrete collaborators on which the theorems below are exercised: one or two nodes, a
  connection that answers every request with the same reply, an identity \<^verbatim>\<open>decode\<close>.
\<close>

definition node0 :: node where
  "node0 = MemcachedHostAddress ''localhost'' 11211"


definition open_client :: client where
  "open_client = \<lparr>closed = False, autobatching = False, timeout = Some 1\<rparr>"

definition replying :: "bytes option \<Rightarrow> world" where
  "replying reply =
     \<lparr>pick_node = (\<lambda>key. node0),
      pick_nodes = (\<lambda>keys. [(node0, keys)]),
      cluster_node = Inr,
      connection_line = (\<lambda>node req. Inr reply),
      connection_fetch = (\<lambda>node req. Inr ([], [], [], [], None)),
      completion_order = [0],
      decode = Inr,
      regex_memcached_responses = (\<lambda>text. []),
      stat_groups = (\<lambda>text. [])\<rparr>"


text \<open>
  A server that answers \<^verbatim>\<open>version\<close> and stays silent on a command sent with
  \<^verbatim>\<open>noreply\<close>: the consolidated reply to the two commands is the version line alone, in
  which the pattern finds one match, of the group \<^verbatim>\<open>version\<close>.
\<close>

definition version_reply :: bytes where
  "version_reply = ''VERSION 1.6.21'' @ crlf"

definition version_match :: groupdict where
  "version_match = (\<lambda>name. if name = ''version'' then Some ''VERSION 1.6.21'' else None)"

definition version_world :: world where
  "version_world =
     (replying (Some version_reply))
       \<lparr>regex_memcached_responses := (\<lambda>text. if text = version_reply then [version_match] else [])\<rparr>"

definition set_noreply_and_version :: pipeline where
  "set_noreply_and_version =
     \<lparr>memcached_host_address = node0,
      stack = [''set k 0 0 1 noreply'' @ crlf @ ''v'' @ crlf, ''version'' @ crlf]\<rparr>"

text \<open>A pipeline holding one \<^verbatim>\<open>touch\<close> of a key with a space in it.\<close>

definition touch_of_spaced_key :: pipeline where
  "touch_of_spaced_key =
     \<lparr>memcached_host_address = node0, stack = [''touch a b 0'' @ crlf]\<rparr>"





text \<open>
  A server that answers \<^verbatim>\<open>version\<close> and then a \<^verbatim>\<open>get\<close> of a stored key: the pattern
  finds one match for each of the two answers.
\<close>

definition version_and_value :: "answer list" where
  "version_and_value = [Version_line ''1.6.21'', Value_block ''VALUE k 7 1'' ''v'' 7 None]"

definition version_and_value_reply :: bytes where
  "version_and_value_reply =
     ''VERSION 1.6.21'' @ crlf @ ''VALUE k 7 1'' @ crlf @ ''v'' @ crlf @ ''END'' @ crlf"

definition version_and_value_world :: world where
  "version_and_value_world =
     (replying (Some version_and_value_reply))
       \<lparr>regex_memcached_responses :=
          (\<lambda>text. if text = version_and_value_reply then map groups_of version_and_value
                   else [])\<rparr>"

definition version_and_get :: pipeline where
  "version_and_get =
     \<lparr>memcached_host_address = node0, stack = [''version'' @ crlf, ''get k'' @ crlf]\<rparr>"

section \<open>Properties of the storage commands\<close>

lemmas storage_defs = Client_storage_command_def on_picked_node_def and_then_def raise_def

text \<open>
  The guards of a storage command on an open client: the call is refused before any event
  exactly when the token is above \<open>2^64\<close>, the flags are above \<open>2^16\<close>, or the key is
  invalid.
\<close>

lemma storage_validation:
  assumes "\<not> closed c"
  shows "fst (Client_storage_command w c command key val flags exptime noreply cas) = []
      \<longleftrightarrow> (case cas of None \<Rightarrow> False | Some n \<Rightarrow> n > 2 ^ 64) \<or> flags > 2 ^ 16 \<or> \<not> is_key_valid key"
  using assms
  by (simp add: storage_defs MAX_ALLOWED_FLAG_VALUE_def MAX_ALLOWED_CAS_VALUE_def Let_def
      split: option.splits)

text \<open>
  Claim C1: a storage command with flags \<open>\<ge> 2^16\<close>, or a \<^verbatim>\<open>cas\<close> with a token
  \<open>\<ge> 2^64\<close>, is rejected before any routing or I/O. At the bounds themselves the code does
  not reject: \<^verbatim>\<open>set\<close> with flags \<open>2^16\<close> and \<^verbatim>\<open>cas\<close> with the token \<open>2^64\<close> on an open
  client pass the guards, a node is picked and the command is handed to a connection;
  the builder of the pipeline, with the same guards, serialises both.
\<close>

theorem storage_boundary_values_accepted:
  "Client_set (replying (Some STORED)) open_client ''k'' ''v'' (2 ^ 16) 0 False =
     ([Pick_node ''k'', Connection node0 (Storage_command ''set'' ''k'' ''v'' (2 ^ 16) 0 False None)],
      Inr ())
   \<and> Client_cas (replying (Some STORED)) open_client ''k'' ''v'' (2 ^ 64) 0 0 False =
     ([Pick_node ''k'',
       Connection node0 (Storage_command ''cas'' ''k'' ''v'' 0 0 False (Some (2 ^ 64)))],
      Inr ())
   \<and> Pipeline_storage_command ''set'' ''k'' ''v'' (2 ^ 16) 0 False None =
     Inr (''set k 65536 0 1'' @ crlf @ ''v'' @ crlf)
   \<and> Pipeline_storage_command ''cas'' ''k'' ''v'' 0 0 False (Some (2 ^ 64)) =
     Inr (''cas k 0 0 1 18446744073709551616'' @ crlf @ ''v'' @ crlf)"
proof -
  have r: "nat_repr 0 = ''0''" "nat_repr (Suc 0) = ''1''" "nat_repr 65536 = ''65536''"
    "nat_repr 18446744073709551616 = ''18446744073709551616''"
    by (simp_all add: nat_repr.simps char_of_def bit_0)
  show ?thesis
    by (simp add: Client_set_def Client_cas_def storage_defs open_client_def replying_def
        Pipeline_storage_command_def repr_def r crlf_def
        MAX_ALLOWED_FLAG_VALUE_def MAX_ALLOWED_CAS_VALUE_def is_key_valid_def forbidden_byte_def
        STORED_def EXISTS_def)
qed

text \<open>
  Claim C2, as stated, fails for \<^verbatim>\<open>set\<close>: a reply \<^verbatim>\<open>NOT_STORED\<close> raises the generic
  storage error, not \<^verbatim>\<open>NotStoredStorageCommandError\<close>.
\<close>

theorem set_not_stored_counterexample:
  "snd (Client_set (replying (Some NOT_STORED)) open_client ''k'' ''v'' 0 0 False)
     = Inl (StorageCommandError (Some NOT_STORED))
   \<and> snd (Client_set (replying (Some NOT_STORED)) open_client ''k'' ''v'' 0 0 False)
     \<noteq> Inl NotStoredStorageCommandError"
  by (simp add: Client_set_def storage_defs open_client_def replying_def
      MAX_ALLOWED_FLAG_VALUE_def is_key_valid_def forbidden_byte_def STORED_def NOT_STORED_def)

text \<open>
  Claim C2, amended: with \<^verbatim>\<open>noreply\<close> false and a reply from the connection, \<^verbatim>\<open>set\<close>
  raises the generic storage error on every reply other than \<^verbatim>\<open>STORED\<close>; \<^verbatim>\<open>add\<close>,
  \<^verbatim>\<open>replace\<close>, \<^verbatim>\<open>append\<close> and \<^verbatim>\<open>prepend\<close> raise the not-stored error on \<^verbatim>\<open>NOT_STORED\<close>
  and the generic one on every other reply that is not \<^verbatim>\<open>STORED\<close>; \<^verbatim>\<open>cas\<close> raises the
  not-stored error on \<^verbatim>\<open>EXISTS\<close> and the generic one on every other reply that is not
  \<^verbatim>\<open>STORED\<close>; a reply \<^verbatim>\<open>STORED\<close> returns unit.
\<close>

theorem storage_reply_classification:
  assumes "\<not> closed c" and "is_key_valid key"
    and "flags \<le> MAX_ALLOWED_FLAG_VALUE" and "cas \<le> MAX_ALLOWED_CAS_VALUE"
    and "\<forall>req. connection_line w (pick_node w key) req = Inr reply"
  shows
   "snd (Client_set w c key val flags exptime False) =
      (if reply = Some STORED then Inr () else Inl (StorageCommandError reply))
    \<and> snd (Client_add w c key val flags exptime False) =
      (if reply = Some NOT_STORED then Inl NotStoredStorageCommandError
       else if reply = Some STORED then Inr () else Inl (StorageCommandError reply))
    \<and> snd (Client_replace w c key val flags exptime False) =
      (if reply = Some NOT_STORED then Inl NotStoredStorageCommandError
       else if reply = Some STORED then Inr () else Inl (StorageCommandError reply))
    \<and> snd (Client_append w c key val False) =
      (if reply = Some NOT_STORED then Inl NotStoredStorageCommandError
       else if reply = Some STORED then Inr () else Inl (StorageCommandError reply))
    \<and> snd (Client_prepend w c key val False) =
      (if reply = Some NOT_STORED then Inl NotStoredStorageCommandError
       else if reply = Some STORED then Inr () else Inl (StorageCommandError reply))
    \<and> snd (Client_cas w c key val cas flags exptime False) =
      (if reply = Some EXISTS then Inl NotStoredStorageCommandError
       else if reply = Some STORED then Inr () else Inl (StorageCommandError reply))"
  using assms
  by (simp add: Client_set_def Client_add_def Client_replace_def Client_append_def
      Client_prepend_def Client_cas_def storage_defs MAX_ALLOWED_FLAG_VALUE_def
      STORED_def NOT_STORED_def EXISTS_def)

theorem storage_reply_classification_witness:
  "snd (Client_set (replying (Some NOT_STORED)) open_client ''k'' ''v'' 0 0 False) =
     Inl (StorageCommandError (Some NOT_STORED))
   \<and> snd (Client_add (replying (Some NOT_STORED)) open_client ''k'' ''v'' 0 0 False) =
     Inl NotStoredStorageCommandError
   \<and> snd (Client_cas (replying (Some NOT_STORED)) open_client ''k'' ''v'' 7 0 0 False) =
     Inl (StorageCommandError (Some NOT_STORED))"
proof -
  have 1: "\<not> closed open_client" by (simp add: open_client_def)
  have 2: "is_key_valid ''k''" by (simp add: is_key_valid_def forbidden_byte_def)
  have 3: "(0::int) \<le> MAX_ALLOWED_FLAG_VALUE" by (simp add: MAX_ALLOWED_FLAG_VALUE_def)
  have 4: "(7::int) \<le> MAX_ALLOWED_CAS_VALUE" by (simp add: MAX_ALLOWED_CAS_VALUE_def)
  have 5: "\<forall>req. connection_line (replying (Some NOT_STORED))
             (pick_node (replying (Some NOT_STORED)) ''k'') req = Inr (Some NOT_STORED)"
    by (simp add: replying_def)
  show ?thesis
    using storage_reply_classification [OF 1 2 3 4 5, of "''v''" 0]
    by (simp add: STORED_def NOT_STORED_def EXISTS_def)
qed

section \<open>Properties of a closed client\<close>







section \<open>Properties of the decimal digits\<close>

lemma is_digit_char_of: "d < 10 \<Longrightarrow> is_digit (char_of (48 + (d::nat)))"
  by (simp add: is_digit_def)

lemma digit_value_char_of: "d < 10 \<Longrightarrow> digit_value (char_of (48 + (d::nat))) = d"
  by (simp add: digit_value_def)

lemma digits_Cons: "is_digit c \<Longrightarrow> digits acc (c # cs) = digits (10 * acc + digit_value c) cs"
  by (cases cs) simp_all

lemma digits_snoc:
  "list_all is_digit cs \<Longrightarrow> is_digit d \<Longrightarrow>
   digits acc (cs @ [d]) = map_option (\<lambda>v. 10 * v + digit_value d) (digits acc cs)"
proof (induction cs arbitrary: acc)
  case Nil
  then show ?case by simp
next
  case (Cons c cs)
  then have "is_digit c" "list_all is_digit cs" by simp_all
  then show ?case
    using Cons.IH [of "10 * acc + digit_value c"] Cons.prems(2)
    by (simp add: digits_Cons)
qed

lemma nat_repr_digits: "list_all is_digit (nat_repr n) \<and> nat_repr n \<noteq> []"
proof (induction n rule: nat_repr.induct)
  case (1 n)
  show ?case
  proof (cases "n < 10")
    case True
    then show ?thesis by (simp add: nat_repr.simps [of n] is_digit_char_of)
  next
    case False
    then show ?thesis
      using "1" by (simp add: nat_repr.simps [of n] is_digit_char_of)
  qed
qed

lemma digits_nat_repr: "digits 0 (nat_repr n) = Some n"
proof (induction n rule: nat_repr.induct)
  case (1 n)
  show ?case
  proof (cases "n < 10")
    case True
    then show ?thesis
      by (simp add: nat_repr.simps [of n] is_digit_char_of digit_value_char_of)
  next
    case False
    have "digits 0 (nat_repr (n div 10) @ [char_of (48 + n mod 10)]) =
          map_option (\<lambda>v. 10 * v + digit_value (char_of (48 + n mod 10)))
            (digits 0 (nat_repr (n div 10)))"
      by (rule digits_snoc) (simp_all add: nat_repr_digits is_digit_char_of)
    then show ?thesis
      using False "1" by (simp add: nat_repr.simps [of n] digit_value_char_of)
  qed
qed

lemma dropWhile_none: "\<forall>x\<in>set xs. \<not> P x \<Longrightarrow> dropWhile P xs = xs"
  by (cases xs) simp_all

lemma strip_none: "\<forall>c\<in>set s. \<not> space c \<Longrightarrow> strip space s = s"
  by (simp add: strip_def dropWhile_none)

lemma filter_all: "list_all P xs \<Longrightarrow> filter P xs = xs"
  by (induction xs) simp_all

text \<open>
  \<^verbatim>\<open>int\<close> reads the decimal digits of a natural number back as that number, unless they
  are more than it accepts.
\<close>

lemma unsigned_nat_repr:
  "unsigned (nat_repr n) = (if short n then Inr (int n) else Inl too_many_digits)"
proof -
  obtain c cs where s: "nat_repr n = c # cs"
    using nat_repr_digits [of n] by (cases "nat_repr n") auto
  have d: "is_digit c" using nat_repr_digits [of n] s by simp
  have 1: "digits (digit_value c) cs = Some n"
    using digits_nat_repr [of n] d by (simp add: s digits_Cons)
  have 2: "filter is_digit (c # cs) = c # cs"
    using filter_all [of is_digit "nat_repr n"] nat_repr_digits [of n] by (simp add: s)
  show ?thesis
    unfolding unsigned_def s using d 1 2 by (simp add: short_def s)
qed

lemma blank_spaces: "blank is_space" "blank is_space_str"
  by (auto simp: blank_def is_space_def is_space_str_def is_digit_def)

lemma py_int_repr:
  assumes "blank space"
  shows "py_int space (Some (repr i)) =
           (if short (nat \<bar>i\<bar>) then Inr i else Inl too_many_digits)"
proof (cases "i < 0")
  case True
  have ns: "\<forall>c\<in>set (repr i). \<not> space c"
    using assms nat_repr_digits [of "nat (- i)"] True
    by (auto simp: repr_def blank_def list_all_iff)
  have "nat \<bar>i\<bar> = nat (- i)" using True by simp
  then show ?thesis
    using True unsigned_nat_repr [of "nat (- i)"]
    by (simp add: py_int_def strip_none [OF ns]) (simp add: repr_def)
next
  case False
  obtain c cs where s: "nat_repr (nat i) = c # cs"
    using nat_repr_digits [of "nat i"] by (cases "nat_repr (nat i)") auto
  have d: "is_digit c" using nat_repr_digits [of "nat i"] s by simp
  then have sg: "c \<noteq> CHR ''-''" "c \<noteq> CHR ''+''" by (auto simp: is_digit_def)
  have ns: "\<forall>c\<in>set (repr i). \<not> space c"
    using assms nat_repr_digits [of "nat i"] False
    by (auto simp: repr_def blank_def list_all_iff)
  have r: "repr i = c # cs" using False s by (simp add: repr_def)
  have "nat \<bar>i\<bar> = nat i" using False by simp
  then show ?thesis
    using False unsigned_nat_repr [of "nat i"] sg
    by (simp add: py_int_def strip_none [OF ns, unfolded r] r s)
qed

lemma int_of_nat_repr:
  "short n \<Longrightarrow> int_of_bytes (Some (nat_repr n)) = Inr (int n)"
  "short n \<Longrightarrow> int_of_str (Some (nat_repr n)) = Inr (int n)"
  using py_int_repr [OF blank_spaces(1), of "int n"] py_int_repr [OF blank_spaces(2), of "int n"]
  by (simp_all add: int_of_bytes_def int_of_str_def repr_def)

lemma repr_not_NOT_FOUND: "repr i \<noteq> NOT_FOUND"
proof (cases "i < 0")
  case True
  then show ?thesis by (simp add: repr_def NOT_FOUND_def)
next
  case False
  then show ?thesis
    using nat_repr_digits [of "nat i"] by (auto simp: repr_def NOT_FOUND_def is_digit_def)
qed

section \<open>Properties of the counters\<close>

text \<open>
  Claim C7, as stated, fails: a reply other than \<^verbatim>\<open>NOT_FOUND\<close> that is not a number,
  such as the server's error line for a value that is not numeric, is not returned as an
  integer; \<^verbatim>\<open>int\<close> raises \<^verbatim>\<open>ValueError\<close>.
\<close>

theorem increment_error_reply_counterexample:
  "snd (Client_increment
          (replying (Some ''CLIENT_ERROR cannot increment or decrement non-numeric value''))
          open_client ''k'' 1 False)
   = Inl invalid_literal"
  by (simp add: Client_increment_def Client_incr_decr_command_def on_picked_node_def
      and_then_def raise_def open_client_def replying_def is_key_valid_def forbidden_byte_def
      NOT_FOUND_def some_def int_of_bytes_def py_int_def strip_def is_space_def unsigned_def
      is_digit_def)

text \<open>
  Claim C7, amended: on an open client a negative delta is rejected before any event; for
  a delta that is not negative and a valid key, when the connection replies, the call
  returns \<^verbatim>\<open>None\<close> under \<^verbatim>\<open>noreply\<close>, raises the not-found error on \<^verbatim>\<open>NOT_FOUND\<close>, and
  returns the integer \<open>i\<close> when the reply is the decimal representation of \<open>i\<close> and has
  no more digits than \<^verbatim>\<open>int\<close> accepts, 4300; with more digits \<^verbatim>\<open>int\<close> raises
  \<^verbatim>\<open>ValueError\<close>.
\<close>

theorem counter_outcomes:
  assumes "\<not> closed c"
  shows "(delta < 0 \<longrightarrow>
            Client_increment w c key delta noreply = raise delta_error
          \<and> Client_decrement w c key delta noreply = raise delta_error)
       \<and> (0 \<le> delta \<and> is_key_valid key
            \<and> (\<forall>req. connection_line w (pick_node w key) req = Inr reply) \<longrightarrow>
              snd (Client_increment w c key delta True) = Inr None
            \<and> snd (Client_decrement w c key delta True) = Inr None
            \<and> (reply = Some NOT_FOUND \<longrightarrow>
                  snd (Client_increment w c key delta False) = Inl NotFoundCommandError
                \<and> snd (Client_decrement w c key delta False) = Inl NotFoundCommandError)
            \<and> (reply = Some (repr i) \<and> length (nat_repr (nat \<bar>i\<bar>)) \<le> int_max_str_digits \<longrightarrow>
                  snd (Client_increment w c key delta False) = Inr (Some i)
                \<and> snd (Client_decrement w c key delta False) = Inr (Some i))
            \<and> (reply = Some (repr i) \<and> int_max_str_digits < length (nat_repr (nat \<bar>i\<bar>)) \<longrightarrow>
                  snd (Client_increment w c key delta False) = Inl too_many_digits
                \<and> snd (Client_decrement w c key delta False) = Inl too_many_digits))"
proof -
  have p: "int_of_bytes (Some (repr i)) =
             (if short (nat \<bar>i\<bar>) then Inr i else Inl too_many_digits)"
    using py_int_repr [OF blank_spaces(1), of i] by (simp add: int_of_bytes_def)
  show ?thesis
    using assms repr_not_NOT_FOUND [of i] p
    by (simp add: Client_increment_def Client_decrement_def Client_incr_decr_command_def
        on_picked_node_def and_then_def raise_def some_def short_def)
qed

theorem counter_outcomes_witness:
  "\<not> closed open_client
   \<and> Client_increment (replying None) open_client ''n'' (- 1) False = ([], Inl delta_error)
   \<and> snd (Client_decrement (replying (Some ''13'')) open_client ''n'' 3 True) = Inr None
   \<and> snd (Client_increment (replying (Some NOT_FOUND)) open_client ''n'' 3 False)
        = Inl NotFoundCommandError
   \<and> snd (Client_increment (replying (Some ''13'')) open_client ''n'' 3 False) = Inr (Some 13)"
proof -
  have 1: "\<not> closed open_client" by (simp add: open_client_def)
  have 2: "is_key_valid ''n''" by (simp add: is_key_valid_def forbidden_byte_def)
  have 3: "nat_repr 13 = ''13''" by code_simp
  have 4: "\<And>r. \<forall>req. connection_line (replying r) (pick_node (replying r) ''n'') req = Inr r"
    by (simp add: replying_def)
  have 5: "repr 13 = ''13''" by (simp add: repr_def 3)
  have 6: "length (nat_repr (nat \<bar>13\<bar>)) \<le> int_max_str_digits"
    by (simp add: 3 int_max_str_digits_def)
  show ?thesis
    using 1 2 4 6
      counter_outcomes [OF 1, where delta = "- 1" and w = "replying None" and key = "''n''"
        and noreply = False]
      counter_outcomes [OF 1, where delta = 3 and w = "replying (Some ''13'')" and key = "''n''"
        and reply = "Some ''13''" and i = 13]
      counter_outcomes [OF 1, where delta = 3 and w = "replying (Some NOT_FOUND)"
        and key = "''n''" and reply = "Some NOT_FOUND"]
    by (simp add: 3 5 raise_def)
qed

section \<open>Properties of the multi-key retrievals\<close>

text \<open>
  Claim C9: on an open client \<^verbatim>\<open>get_many\<close>, \<^verbatim>\<open>gets_many\<close>, \<^verbatim>\<open>gat_many\<close> and \<^verbatim>\<open>gats_many\<close>
  with no keys return the empty map and cause no event: no key is validated, no node is
  picked, nothing is sent.
\<close>

theorem empty_keys_return_empty_map:
  assumes "\<not> closed c"
  shows "Client_get_many w c [] return_flags = Some ([], Inr Map.empty)
       \<and> Client_gets_many w c [] return_flags = Some ([], Inr Map.empty)
       \<and> Client_gat_many w c exptime [] return_flags = Some ([], Inr Map.empty)
       \<and> Client_gats_many w c exptime [] return_flags = Some ([], Inr Map.empty)"
  using assms
  by (simp add: Client_get_many_def Client_gets_many_def Client_gat_many_def
      Client_gats_many_def Client_fetch_many_command_def
      Client_get_and_touch_many_command_def after_fanout_def)

theorem empty_keys_return_empty_map_witness:
  "\<not> closed open_client
   \<and> Client_get_many (replying None) open_client [] True = Some ([], Inr Map.empty)
   \<and> Client_gets_many (replying None) open_client [] False = Some ([], Inr Map.empty)
   \<and> Client_gat_many (replying None) open_client 60 [] True = Some ([], Inr Map.empty)
   \<and> Client_gats_many (replying None) open_client 60 [] False = Some ([], Inr Map.empty)"
proof -
  have 1: "\<not> closed open_client" by (simp add: open_client_def)
  show ?thesis
    using 1 empty_keys_return_empty_map [OF 1, of "replying None" True 60]
      empty_keys_return_empty_map [OF 1, of "replying None" False 60]
    by simp
qed

section \<open>Properties of the retrieved items\<close>


























lemma after_fanout_Inr:
  "m = Some (tr, tasks, Inr x) \<Longrightarrow> f x = r \<Longrightarrow> after_fanout m f = Some (tr, r)"
  by (simp add: after_fanout_def)













section \<open>Properties of key validation\<close>

text \<open>
  The facade of the client, and the builders of the pipeline that validate, refuse an
  invalid key before any event.
\<close>

lemma client_rejects_invalid_key:
  assumes "\<not> closed c" and "\<not> is_key_valid key"
  shows "Client_fetch_command w c command key = raise key_error"
    and "Client_get_and_touch_command w c command exptime key = raise key_error"
    and "Client_touch w c key exptime noreply = raise key_error"
    and "Client_delete w c key noreply = raise key_error"
    and "delta \<ge> 0 \<Longrightarrow> Client_incr_decr_command w c command key delta noreply = raise key_error"
    and "flags \<le> MAX_ALLOWED_FLAG_VALUE \<Longrightarrow>
         Client_storage_command w c command key val flags exptime noreply None = raise key_error"
    and "key \<in> set keys \<Longrightarrow>
         Client_fetch_many_command w c command keys return_flags = Some ([], [], Inl key_error)"
    and "key \<in> set keys \<Longrightarrow>
         Client_get_and_touch_many_command w c command exptime keys return_flags
           = Some ([], [], Inl key_error)"
    and "key \<in> set keys \<Longrightarrow> Pipeline_retrieval_command command keys = Inl key_error"
    and "key \<in> set keys \<Longrightarrow> Pipeline_get_and_touch_command command exptime keys = Inl key_error"
    and "delta \<ge> 0 \<Longrightarrow> Pipeline_incr_decr_command command key delta noreply = Inl key_error"
    and "flags \<le> MAX_ALLOWED_FLAG_VALUE \<Longrightarrow>
         Pipeline_storage_command command key val flags exptime noreply None = Inl key_error"
  using assms
  by (auto simp: Client_fetch_command_def Client_get_and_touch_command_def Client_touch_def
      Client_delete_def Client_incr_decr_command_def Client_storage_command_def
      Client_fetch_many_command_def Client_get_and_touch_many_command_def
      Pipeline_retrieval_command_def Pipeline_get_and_touch_command_def
      Pipeline_incr_decr_command_def Pipeline_storage_command_def list_ex_iff raise_def)

section \<open>Properties of the pipeline\<close>





lemma execute_failure:
  "Pipeline_execute w c p = (p', tr, Inl e) \<Longrightarrow> p' = p"
  by (auto simp: Pipeline_execute_def raise_def Let_def
      split: if_splits prod.splits sum.splits option.splits)

lemma emptied_is_fresh: "p\<lparr>stack := []\<rparr> = Client_pipeline (memcached_host_address p)"
  by (cases p) (simp add: Client_pipeline_def)





lemma push_wire: "r = Inr b \<Longrightarrow> push p r = Inr p1 \<Longrightarrow> p1 = p\<lparr>stack := stack p @ [b]\<rparr>"
  by (auto simp: push_def)










lemma nat_repr_0_1: "nat_repr 0 = ''0''" "nat_repr (Suc 0) = ''1''" "nat_repr 1 = ''1''"
  by code_simp+

lemmas builder_defs = push_def Pipeline_set_def Pipeline_version_def Pipeline_touch_def
  Pipeline_delete_def Pipeline_get_def Pipeline_storage_command_def
  Pipeline_retrieval_command_def Client_pipeline_def
  MAX_ALLOWED_FLAG_VALUE_def is_key_valid_def forbidden_byte_def repr_def nat_repr_0_1 crlf_def

lemma chain_set_noreply_and_version:
  "chain (Client_pipeline node0) [Set ''k'' ''v'' 0 0 True, Version] = Inr set_noreply_and_version"
  by (simp add: builder_defs set_noreply_and_version_def)

lemma execute_set_noreply_and_version:
  "Pipeline_execute version_world open_client set_noreply_and_version
     = (Client_pipeline node0,
        [Cluster_node node0,
         Connection node0 (Extract_pipeline_data
           (''set k 0 0 1 noreply'' @ crlf @ ''v'' @ crlf @ ''version'' @ crlf))],
        Inr [Text ''1.6.21''])"
  by (simp add: Pipeline_execute_def on_cluster_node_def version_world_def replying_def
      open_client_def set_noreply_and_version_def version_reply_def version_match_def
      record_of_def walrus_def truthy_def removeprefix_def Client_pipeline_def crlf_def)

lemma record_of_presents:
  assumes "presents groups a"
  shows "record_of w groups = record_of w (groups_of a)"
proof -
  have e:
    "groups ''error_message'' = groups_of a ''error_message''"
    "groups ''client_error'' = groups_of a ''client_error''"
    "groups ''error'' = groups_of a ''error''"
    "groups ''stored'' = groups_of a ''stored''"
    "groups ''not_stored'' = groups_of a ''not_stored''"
    "groups ''exists'' = groups_of a ''exists''"
    "groups ''not_found'' = groups_of a ''not_found''"
    "groups ''end'' = groups_of a ''end''"
    "groups ''value'' = groups_of a ''value''"
    "groups ''data'' = groups_of a ''data''"
    "groups ''flags'' = groups_of a ''flags''"
    "groups ''cas'' = groups_of a ''cas''"
    "groups ''deleted'' = groups_of a ''deleted''"
    "groups ''touched'' = groups_of a ''touched''"
    "groups ''version'' = groups_of a ''version''"
    "groups ''ok'' = groups_of a ''ok''"
    "groups ''stats'' = groups_of a ''stats''"
    "groups ''incr_decr_value'' = groups_of a ''incr_decr_value''"
    using assms by (simp_all add: presents_def read_groups_def)
  show ?thesis unfolding record_of_def e by (rule refl)
qed

lemma removeprefix_append: "removeprefix p (p @ s) = s"
  by (simp add: removeprefix_def)

lemma record_of_answer:
  assumes "legible a"
  shows "record_of w (groups_of a) = Inr (Some (record_for w a))"
proof (cases a)
  case (Error_line message)
  then show ?thesis using assms by (simp add: record_of_def walrus_def truthy_def)
next
  case (Client_error_line message)
  then show ?thesis using assms by (simp add: record_of_def walrus_def truthy_def)
next
  case (Status_line st matched)
  then show ?thesis using assms by (cases st) (simp_all add: record_of_def walrus_def truthy_def)
next
  case (Value_block matched data flags cas)
  then show ?thesis
    using assms nat_repr_digits
    by (cases cas) (simp_all add: record_of_def walrus_def truthy_def int_of_nat_repr)
next
  case (Version_line version)
  then show ?thesis
    using removeprefix_append [of "''VERSION ''" version]
    by (simp add: record_of_def walrus_def truthy_def)
next
  case (Stats_block stats)
  then show ?thesis using assms by (simp add: record_of_def walrus_def truthy_def)
next
  case (Counter_line n)
  then show ?thesis
    using assms nat_repr_digits [of n]
    by (simp add: record_of_def walrus_def truthy_def int_of_nat_repr)
qed

lemma responses_answers:
  "list_all2 presents matches answers \<Longrightarrow> list_all legible answers \<Longrightarrow>
   responses w matches response = Inr (response @ map (record_for w) answers)"
proof (induction matches answers arbitrary: response rule: list_all2_induct)
  case Nil
  then show ?case by simp
next
  case (Cons groups matches a answers)
  have "record_of w groups = Inr (Some (record_for w a))"
    using record_of_presents [OF Cons.hyps(1)] record_of_answer [of a w] Cons.prems by simp
  then show ?case using Cons.IH [of "response @ [record_for w a]"] Cons.prems by simp
qed

lemma execute_answers:
  assumes "\<not> closed c"
    and "cluster_node w (memcached_host_address p) = Inr node"
    and "connection_line w node (Extract_pipeline_data (concat (stack p))) = Inr (Some result)"
    and "decode w result = Inr decoded"
    and "list_all2 presents (regex_memcached_responses w decoded) answers"
    and "list_all legible answers"
  shows "Pipeline_execute w c p =
           (Client_pipeline (memcached_host_address p),
            [Cluster_node (memcached_host_address p),
             Connection node (Extract_pipeline_data (concat (stack p)))],
            Inr (map (record_for w) answers))"
  using assms responses_answers [OF assms(5) assms(6), of w "[]"] emptied_is_fresh [of p]
  by (simp add: Pipeline_execute_def on_cluster_node_def)


text \<open>
  Claim C3, as stated, fails: a pipeline of two queued commands, a \<^verbatim>\<open>set\<close> with
  \<^verbatim>\<open>noreply\<close> and a \<^verbatim>\<open>version\<close>, whose reply is the version line alone, returns one
  record.
\<close>

theorem pipeline_two_commands_one_record:
  "chain (Client_pipeline node0) [Set ''k'' ''v'' 0 0 True, Version] = Inr set_noreply_and_version
   \<and> length (stack set_noreply_and_version) = 2
   \<and> snd (snd (Pipeline_execute version_world open_client set_noreply_and_version))
       = Inr [Text ''1.6.21'']
   \<and> length [Text ''1.6.21''] \<noteq> length (stack set_noreply_and_version)"
proof -
  have 1: "length (stack set_noreply_and_version) = 2"
    by (simp add: set_noreply_and_version_def)
  have 2: "snd (snd (Pipeline_execute version_world open_client set_noreply_and_version))
       = Inr [Text ''1.6.21'']"
    by (simp add: execute_set_noreply_and_version)
  have 3: "length [Text ''1.6.21''] \<noteq> length (stack set_noreply_and_version)"
    by (simp add: 1)
  from chain_set_noreply_and_version 1 2 3 show ?thesis by (intro conjI)
qed

text \<open>
  Claim C3, amended: for a pipeline of N queued commands on an open client, when the
  consolidated reply is read and decoded and the reply pattern presents in it a list of
  legible answers, \<^verbatim>\<open>execute()\<close> returns exactly one typed record per answer, in the order
  of the answers in the reply: the message of an error line, the token of a status line,
  an item with the data, flags and cas of a value, the version text, the map of a
  statistics block, the integer of a counter reply. So when the reply holds one answer
  for each of the N queued commands, none of which was queued with \<^verbatim>\<open>noreply\<close>, the list
  has exactly N records and the record at each position is that of the answer at that
  position.
\<close>

theorem execute_record_per_answer:
  "\<not> closed c
   \<and> cluster_node w (memcached_host_address p) = Inr node
   \<and> connection_line w node (Extract_pipeline_data (concat (stack p))) = Inr (Some result)
   \<and> decode w result = Inr decoded
   \<and> list_all2 presents (regex_memcached_responses w decoded) answers
   \<and> list_all legible answers
   \<longrightarrow>
     Pipeline_execute w c p =
       (Client_pipeline (memcached_host_address p),
        [Cluster_node (memcached_host_address p),
         Connection node (Extract_pipeline_data (concat (stack p)))],
        Inr (map (record_for w) answers))
     \<and> (length answers = length (stack p) \<longrightarrow>
          (\<exists>response.
             snd (snd (Pipeline_execute w c p)) = Inr response
             \<and> length response = length (stack p)
             \<and> (\<forall>i < length (stack p). response ! i = record_for w (answers ! i))))"
proof (intro impI, elim conjE)
  assume a: "\<not> closed c"
    "cluster_node w (memcached_host_address p) = Inr node"
    "connection_line w node (Extract_pipeline_data (concat (stack p))) = Inr (Some result)"
    "decode w result = Inr decoded"
    "list_all2 presents (regex_memcached_responses w decoded) answers"
    "list_all legible answers"
  note e = execute_answers [OF a]
  have "length answers = length (stack p) \<longrightarrow>
          (\<exists>response.
             snd (snd (Pipeline_execute w c p)) = Inr response
             \<and> length response = length (stack p)
             \<and> (\<forall>i < length (stack p). response ! i = record_for w (answers ! i)))"
    by (simp add: e)
  with e show "Pipeline_execute w c p =
       (Client_pipeline (memcached_host_address p),
        [Cluster_node (memcached_host_address p),
         Connection node (Extract_pipeline_data (concat (stack p)))],
        Inr (map (record_for w) answers))
     \<and> (length answers = length (stack p) \<longrightarrow>
          (\<exists>response.
             snd (snd (Pipeline_execute w c p)) = Inr response
             \<and> length response = length (stack p)
             \<and> (\<forall>i < length (stack p). response ! i = record_for w (answers ! i))))"
    by (intro conjI)
qed

text \<open>
  The amended theorem at a pipeline of two commands, \<^verbatim>\<open>version\<close> and \<^verbatim>\<open>get\<close>, whose reply
  holds a version line and a value: two records, the version text and the item.
\<close>

theorem execute_record_per_answer_witness:
  "chain (Client_pipeline node0) [Version, Get ''k''] = Inr version_and_get
   \<and> length (stack version_and_get) = 2
   \<and> Pipeline_execute version_and_value_world open_client version_and_get
       = (Client_pipeline node0,
          [Cluster_node node0,
           Connection node0 (Extract_pipeline_data (''version'' @ crlf @ ''get k'' @ crlf))],
          Inr [Text ''1.6.21'', Item_of_groups (Some ''v'') 7 None])"
proof -
  have 1: "chain (Client_pipeline node0) [Version, Get ''k''] = Inr version_and_get"
    by (simp add: builder_defs version_and_get_def)
  have 2: "length (stack version_and_get) = 2" by (simp add: version_and_get_def)
  have s7: "nat_repr 7 = ''7''" by code_simp
  have l: "list_all legible version_and_value"
    by (simp add: version_and_value_def short_def s7 int_max_str_digits_def)
  have p: "list_all2 presents
             (regex_memcached_responses version_and_value_world version_and_value_reply)
             version_and_value"
    by (simp add: version_and_value_world_def replying_def version_and_value_def presents_def
        list_all_iff)
  have "Pipeline_execute version_and_value_world open_client version_and_get
       = (Client_pipeline node0,
          [Cluster_node node0,
           Connection node0 (Extract_pipeline_data (''version'' @ crlf @ ''get k'' @ crlf))],
          Inr [Text ''1.6.21'', Item_of_groups (Some ''v'') 7 None])"
    using execute_record_per_answer [where c = open_client and w = version_and_value_world
        and p = version_and_get and node = node0 and result = version_and_value_reply
        and decoded = version_and_value_reply and answers = version_and_value] l p
    by (simp add: open_client_def version_and_value_world_def replying_def version_and_get_def
        version_and_value_def)
  with 1 2 show ?thesis by (intro conjI)
qed


text \<open>
  Claim C6: every operation that takes a key rejects an invalid key before any node
  selection or I/O. The builders \<^verbatim>\<open>touch\<close> and \<^verbatim>\<open>delete\<close> of the pipeline do not: the
  key \<^verbatim>\<open>a b\<close>, invalid for its space, is serialised and queued, where \<^verbatim>\<open>get\<close> of the
  pipeline and \<^verbatim>\<open>touch\<close> of the client refuse it, and \<^verbatim>\<open>execute()\<close> hands it to the
  connection.
\<close>

theorem pipeline_touch_skips_key_validation:
  "\<not> is_key_valid ''a b''
   \<and> Pipeline_touch (Client_pipeline node0) ''a b'' 0 False = Inr touch_of_spaced_key
   \<and> Pipeline_delete (Client_pipeline node0) ''a b'' False
       = Inr \<lparr>memcached_host_address = node0, stack = [''delete a b'' @ crlf]\<rparr>
   \<and> Pipeline_get (Client_pipeline node0) ''a b'' = Inl key_error
   \<and> Client_touch (replying (Some TOUCHED)) open_client ''a b'' 0 False = ([], Inl key_error)
   \<and> Pipeline_execute (replying (Some ''ERROR'')) open_client touch_of_spaced_key
       = (Client_pipeline node0,
          [Cluster_node node0,
           Connection node0 (Extract_pipeline_data (''touch a b 0'' @ crlf))],
          Inr [])"
  by (simp add: builder_defs touch_of_spaced_key_def Client_touch_def raise_def open_client_def
      Pipeline_execute_def on_cluster_node_def replying_def)

section \<open>Properties of the fan-out\<close>




















end
